theory Spec2Isabelle
  imports Complex_Main
begin

section \<open>The waveform analyzer of src/main.py\<close>

text \<open>
  The class \<open>WaveformAnalyzer\<close> keeps a table, the cleaned values of one column, an index
  range \<open>(start_idx, end_idx)\<close> over that column, the state of a mouse drag, and the text
  of the mean of the selected values. Its handlers are modelled as functions on a record of
  these attributes.

  Conventions of the model:
  \<^item> a Python \<open>str\<close> is the list of its code points;
  \<^item> a Python \<open>float\<close> (a pointer coordinate, a column value, a mean) is a \<open>real\<close>;
    comparisons and \<open>int()\<close> are exact on doubles as on reals, and the two float
    operations of the whole-span update, whose rounding decides the indices, are rounded
    to binary64 (\<open>binary64\<close> below); the difference taken at a press and the sum of
    \<open>np.mean\<close> are taken as exact;
  \<^item> a Python \<open>int\<close> is an \<open>int\<close>;
  \<^item> a handler that can raise returns an \<open>outcome\<close>, which keeps the attributes as they
    are when the exception leaves the handler (the toolkit reports an exception of a
    callback and goes on with the next event).
\<close>

subsection \<open>Strings\<close>

type_synonym ustring = "nat list"

definition ascii :: "string \<Rightarrow> ustring" where
  "ascii cs = map of_char cs"

text \<open>The fullwidth colon U+FF1A that ends the label of the mean.\<close>

definition colon :: nat where
  "colon = 65306"

text \<open>The label \<open>mean_label\<close> is the text before the value: seven CJK characters and the colon.\<close>

definition mean_label :: ustring where
  "mean_label = [36873, 20013, 21306, 22495, 24179, 22343, 20540, colon]"

definition placeholder_text :: ustring where
  "placeholder_text = mean_label @ ascii ''--''"

definition hint_no_valid_data :: ustring where
  "hint_no_valid_data = [26242, 26080, 26377, 25928, 25968, 25454]"

definition hint_copied :: ustring where
  "hint_copied = [22797, 21046, 25104, 21151]"

definition hint_copy_failed :: ustring where
  "hint_copy_failed = [22797, 21046, 22833, 36133]"

subsection \<open>The attributes\<close>

datatype drag_kind = DragStart | DragEnd | DragMove

datatype colour = Green | Red

datatype py_error = KeyError | AttributeError | IndexError

text \<open>
  A mouse event of the canvas: inside the axes it carries the horizontal data coordinate
  \<open>xdata\<close>; outside, \<open>inaxes\<close> is not the axes of the plot (and \<open>xdata\<close> is \<open>None\<close>).
\<close>

datatype mouse_event = InAxes real | OffAxes

type_synonym table = "(ustring \<times> real option list) list"

record analyzer =
  df :: "table option"
  col_var :: ustring
  col_data :: "real list option"
  plotted :: "real list option"
  selection_rect :: "(int \<times> int) option"
  start_idx :: int
  end_idx :: int
  is_dragging :: bool
  drag_type :: "drag_kind option"
  drag_offset :: "real option"
  mean_var :: ustring
  copy_hint_var :: ustring
  copy_hint_fg :: colour
  clipboard :: ustring

datatype outcome = Returned analyzer | Raised py_error analyzer

fun state_of :: "outcome \<Rightarrow> analyzer" where
  "state_of (Returned s) = s"
| "state_of (Raised e s) = s"

text \<open>\<open>__init__\<close>: no table, no column, the range \<open>(0, 20000)\<close>, no drag; \<open>drag_offset\<close> is not
  yet an attribute. The clipboard of the system holds whatever it held, \<open>cb\<close>.\<close>

definition init_analyzer :: "ustring \<Rightarrow> analyzer" where
  "init_analyzer cb =
     \<lparr>df = None, col_var = [], col_data = None, plotted = None, selection_rect = None,
      start_idx = 0, end_idx = 20000, is_dragging = False, drag_type = None,
      drag_offset = None, mean_var = placeholder_text, copy_hint_var = [],
      copy_hint_fg = Green, clipboard = cb\<rparr>"

subsection \<open>Numbers: \<open>int()\<close>, slices, \<open>np.mean\<close>, the format \<open>.4f\<close>\<close>

text \<open>\<open>int(x)\<close> of a float truncates towards zero.\<close>

definition py_int :: "real \<Rightarrow> int" where
  "py_int x = (if 0 \<le> x then \<lfloor>x\<rfloor> else \<lceil>x\<rceil>)"

text \<open>The slice \<open>xs[i:j]\<close>: a negative bound counts from the end, and both bounds are cut
  to \<open>[0, len(xs)]\<close>; a slice never raises.\<close>

definition slice_bound :: "int \<Rightarrow> int \<Rightarrow> int" where
  "slice_bound n k = (if k < 0 then max 0 (k + n) else min k n)"

definition py_slice :: "'a list \<Rightarrow> int \<Rightarrow> int \<Rightarrow> 'a list" where
  "py_slice xs i j =
     (let n = int (length xs); lo = slice_bound n i; hi = slice_bound n j
      in take (nat (hi - lo)) (drop (nat lo) xs))"

text \<open>\<open>np.mean\<close>: the sum over the count; of an empty array it is \<open>nan\<close> (here \<open>None\<close>).\<close>

definition np_mean :: "real list \<Rightarrow> real option" where
  "np_mean xs = (if xs = [] then None else Some (sum_list xs / real (length xs)))"

text \<open>The format \<open>.4f\<close>: the value rounded to four decimals, a tie going to the even
  neighbour, written as sign, integer part, point and four digits.\<close>

definition round_half_even :: "real \<Rightarrow> int" where
  "round_half_even y =
     (let f = \<lfloor>y\<rfloor>; d = y - of_int f
      in if d < 1 / 2 then f else if 1 / 2 < d then f + 1
         else if even f then f else f + 1)"

fun digits10 :: "nat \<Rightarrow> ustring" where
  "digits10 n = (if n < 10 then [48 + n] else digits10 (n div 10) @ [48 + n mod 10])"

declare digits10.simps [simp del]

definition pad4 :: "nat \<Rightarrow> ustring" where
  "pad4 k = [48 + k div 1000 mod 10, 48 + k div 100 mod 10, 48 + k div 10 mod 10, 48 + k mod 10]"

definition format_4f :: "real option \<Rightarrow> ustring" where
  "format_4f v =
     (case v of
        None \<Rightarrow> ascii ''nan''
      | Some m \<Rightarrow>
          (let k = nat (round_half_even (\<bar>m\<bar> * 10000))
           in (if m < 0 then ascii ''-'' else []) @ digits10 (k div 10000) @ ascii ''.''
              @ pad4 (k mod 10000)))"

text \<open>
  A float operation gives the double nearest to the exact result, a tie going to the
  double with the even significand (IEEE 754 binary64, 53 significant bits, smallest
  exponent -1022). \<open>float_exponent x\<close> is the exponent \<open>e\<close> with \<open>2^e \<le> |x| < 2^(e+1)\<close>, found
  from the bit length of the integer part of \<open>|x|\<close>, or of \<open>1 / |x|\<close> below 1. Overflow to
  infinity is left out: the operands here are bounded by the length of the column.
\<close>

fun bit_length :: "nat \<Rightarrow> nat" where
  "bit_length n = (if n = 0 then 0 else Suc (bit_length (n div 2)))"

declare bit_length.simps [simp del]

definition float_exponent :: "real \<Rightarrow> int" where
  "float_exponent x =
     (if 1 \<le> \<bar>x\<bar> then int (bit_length (nat \<lfloor>\<bar>x\<bar>\<rfloor>)) - 1
      else - int (bit_length (nat (\<lceil>1 / \<bar>x\<bar>\<rceil> - 1))))"

definition pow2 :: "int \<Rightarrow> real" where
  "pow2 e = (if 0 \<le> e then 2 ^ nat e else 1 / 2 ^ nat (- e))"

definition binary64 :: "real \<Rightarrow> real" where
  "binary64 x =
     (let ulp = pow2 (max (float_exponent x) (- 1022) - 52)
      in of_int (round_half_even (x / ulp)) * ulp)"

subsection \<open>Drawing the overlay and computing the mean\<close>

text \<open>\<open>_draw_selection_rect\<close>: an end not after the start is moved to \<open>start_idx + 1\<close>, then
  the overlay is drawn over \<open>[start_idx, end_idx]\<close>.\<close>

definition draw_selection_rect :: "analyzer \<Rightarrow> analyzer" where
  "draw_selection_rect s =
     (let s1 = (if start_idx s \<ge> end_idx s then s\<lparr>end_idx := start_idx s + 1\<rparr> else s)
      in s1\<lparr>selection_rect := Some (start_idx s1, end_idx s1)\<rparr>)"

text \<open>\<open>_calculate_mean\<close>.\<close>

definition calculate_mean :: "analyzer \<Rightarrow> analyzer" where
  "calculate_mean s =
     (case col_data s of
        None \<Rightarrow> s
      | Some d \<Rightarrow>
          (let start = max 0 (start_idx s);
               end = min (int (length d) - 1) (end_idx s)
           in if start \<ge> end then s\<lparr>mean_var := placeholder_text\<rparr>
              else (let selected_data = py_slice d start (end + 1);
                        mean_val = np_mean selected_data
                    in s\<lparr>mean_var := mean_label @ format_4f mean_val\<rparr>)))"

subsection \<open>Loading a column\<close>

primrec dropna :: "real option list \<Rightarrow> real list" where
  "dropna [] = []"
| "dropna (v # vs) = (case v of None \<Rightarrow> dropna vs | Some x \<Rightarrow> x # dropna vs)"

text \<open>
  \<open>load_column_data\<close>. The cleaned column is stored in \<open>col_data\<close> before its length is
  looked at. For an empty column the source evaluates \<open>messagebox.warning(...)\<close>. The module
  \<open>tkinter.messagebox\<close> has the functions \<open>showinfo\<close>, \<open>showwarning\<close>, \<open>showerror\<close> and the
  \<open>ask...\<close> family, and no attribute \<open>warning\<close>: the lookup raises \<open>AttributeError\<close>, no
  dialog is shown, and the handler is left with \<open>col_data\<close> already replaced.
\<close>

definition load_column_data :: "analyzer \<Rightarrow> outcome" where
  "load_column_data s =
     (case df s of
        None \<Rightarrow> Returned s
      | Some t \<Rightarrow>
          if col_var s = [] then Returned s
          else (case map_of t (col_var s) of
                  None \<Rightarrow> Raised KeyError s
                | Some col \<Rightarrow>
                    (let s1 = s\<lparr>col_data := Some (dropna col)\<rparr>
                     in if length (dropna col) = 0 then Raised AttributeError s1
                        else (let s2 = s1\<lparr>start_idx := 0,
                                          end_idx := min 20000 (int (length (dropna col)) - 1)\<rparr>;
                                  s3 = s2\<lparr>plotted := Some (dropna col)\<rparr>
                              in Returned (calculate_mean (draw_selection_rect s3))))))"

subsection \<open>The mouse handlers\<close>

definition on_mouse_press :: "analyzer \<Rightarrow> mouse_event \<Rightarrow> analyzer" where
  "on_mouse_press s ev =
     (if col_data s = None then s
      else (case ev of
              OffAxes \<Rightarrow> s
            | InAxes x \<Rightarrow>
                if \<bar>x - of_int (start_idx s)\<bar> < 1000
                  then s\<lparr>is_dragging := True, drag_type := Some DragStart\<rparr>
                else if \<bar>x - of_int (end_idx s)\<bar> < 1000
                  then s\<lparr>is_dragging := True, drag_type := Some DragEnd\<rparr>
                else if of_int (start_idx s) \<le> x \<and> x \<le> of_int (end_idx s)
                  then s\<lparr>is_dragging := True, drag_type := Some DragMove,
                         drag_offset := Some (x - of_int (start_idx s))\<rparr>
                else s))"

text \<open>The three updates of \<open>on_mouse_move\<close>, by drag type; \<open>n\<close> is \<open>len(col_data)\<close> and
  \<open>new_x\<close> the pointer coordinate cut to \<open>[0, n - 1]\<close>. In the whole-span update the
  difference \<open>new_x - drag_offset\<close> and the sum \<open>new_start + width\<close> are float operations
  (an integer operand is converted first, exactly for the lengths a column can have),
  and \<open>int()\<close> is applied to each result on its own.\<close>

definition move_start :: "analyzer \<Rightarrow> real \<Rightarrow> analyzer" where
  "move_start s new_x = s\<lparr>start_idx := min (py_int new_x) (end_idx s - 1)\<rparr>"

definition move_end :: "analyzer \<Rightarrow> real \<Rightarrow> analyzer" where
  "move_end s new_x = s\<lparr>end_idx := max (py_int new_x) (start_idx s + 1)\<rparr>"

definition move_whole :: "analyzer \<Rightarrow> int \<Rightarrow> real \<Rightarrow> real \<Rightarrow> analyzer" where
  "move_whole s n new_x off =
     (let new_start = max 0 (min (of_int (n - (end_idx s - start_idx s)))
                                 (binary64 (new_x - off)));
          new_end = binary64 (new_start + of_int (end_idx s - start_idx s))
      in s\<lparr>start_idx := py_int new_start, end_idx := py_int new_end\<rparr>)"

definition on_mouse_move :: "analyzer \<Rightarrow> mouse_event \<Rightarrow> outcome" where
  "on_mouse_move s ev =
     (if \<not> is_dragging s then Returned s
      else (case col_data s of
              None \<Rightarrow> Returned s
            | Some d \<Rightarrow>
                (case ev of
                   OffAxes \<Rightarrow> Returned s
                 | InAxes x \<Rightarrow>
                     (let n = int (length d);
                          new_x = max 0 (min (of_int (n - 1)) x)
                      in (case drag_type s of
                            Some DragStart \<Rightarrow>
                              Returned (calculate_mean (draw_selection_rect (move_start s new_x)))
                          | Some DragEnd \<Rightarrow>
                              Returned (calculate_mean (draw_selection_rect (move_end s new_x)))
                          | Some DragMove \<Rightarrow>
                              (case drag_offset s of
                                 None \<Rightarrow> Raised AttributeError s
                               | Some off \<Rightarrow>
                                   Returned (calculate_mean (draw_selection_rect
                                     (move_whole s n new_x off))))
                          | None \<Rightarrow> Returned (calculate_mean (draw_selection_rect s)))))))"

definition on_mouse_release :: "analyzer \<Rightarrow> mouse_event \<Rightarrow> analyzer" where
  "on_mouse_release s ev = s\<lparr>is_dragging := False, drag_type := None\<rparr>"

subsection \<open>Copying the result\<close>

text \<open>\<open>sub in text\<close>, \<open>text.split(c)\<close> for a separator of one code point, and \<open>text.strip()\<close>.\<close>

fun contains :: "ustring \<Rightarrow> ustring \<Rightarrow> bool" where
  "contains sub [] = (sub = [])"
| "contains sub (x # xs) = (take (length sub) (x # xs) = sub \<or> contains sub xs)"

fun split_on :: "nat \<Rightarrow> ustring \<Rightarrow> ustring list" where
  "split_on c [] = [[]]"
| "split_on c (x # xs) =
     (if x = c then [] # split_on c xs
      else (x # hd (split_on c xs)) # tl (split_on c xs))"

definition isspace :: "nat \<Rightarrow> bool" where
  "isspace c = ((9 \<le> c \<and> c \<le> 13) \<or> (28 \<le> c \<and> c \<le> 32) \<or> c = 133 \<or> c = 160 \<or> c = 5760
     \<or> (8192 \<le> c \<and> c \<le> 8202) \<or> c = 8232 \<or> c = 8233 \<or> c = 8239 \<or> c = 8287 \<or> c = 12288)"

definition py_strip :: "ustring \<Rightarrow> ustring" where
  "py_strip xs = rev (dropWhile isspace (rev (dropWhile isspace xs)))"

text \<open>The calls on the clipboard sit in a \<open>try\<close>; which of them raises, if any, is given
  by the environment.\<close>

datatype clip_env = ClipWorks | ClearRaises | AppendRaises | UpdateRaises

definition copy_failed :: "analyzer \<Rightarrow> analyzer" where
  "copy_failed s = s\<lparr>copy_hint_var := hint_copy_failed, copy_hint_fg := Red\<rparr>"

definition clipboard_clear :: "analyzer \<Rightarrow> analyzer" where
  "clipboard_clear s = s\<lparr>clipboard := []\<rparr>"

definition clipboard_append :: "analyzer \<Rightarrow> ustring \<Rightarrow> analyzer" where
  "clipboard_append s v = s\<lparr>clipboard := clipboard s @ v\<rparr>"

text \<open>\<open>copy_result_to_clipboard\<close>. The hint is emptied first; the clearing of the hint
  three seconds later is a timer and is left out.\<close>

definition copy_result_to_clipboard :: "analyzer \<Rightarrow> clip_env \<Rightarrow> outcome" where
  "copy_result_to_clipboard s env =
     (let s1 = s\<lparr>copy_hint_var := []\<rparr>;
          mean_text = mean_var s1
      in if contains (colon # ascii ''--'') mean_text
         then Returned (s1\<lparr>copy_hint_var := hint_no_valid_data, copy_hint_fg := Red\<rparr>)
         else (case split_on colon mean_text of
                 p0 # p1 # ps \<Rightarrow>
                   (let mean_value = py_strip p1
                    in (case env of
                          ClearRaises \<Rightarrow> Returned (copy_failed s1)
                        | AppendRaises \<Rightarrow> Returned (copy_failed (clipboard_clear s1))
                        | UpdateRaises \<Rightarrow>
                            Returned (copy_failed (clipboard_append (clipboard_clear s1) mean_value))
                        | ClipWorks \<Rightarrow>
                            Returned ((clipboard_append (clipboard_clear s1) mean_value)
                              \<lparr>copy_hint_var := hint_copied, copy_hint_fg := Green\<rparr>)))
               | _ \<Rightarrow> Raised IndexError s1))"

subsection \<open>The event loop\<close>

text \<open>
  The events the window reacts to. \<open>FileLoaded t\<close> is \<open>load_file\<close> having read the table
  \<open>t\<close>; \<open>ColumnSelected c\<close> is the user picking the column \<open>c\<close> in the combobox, which sets
  \<open>col_var\<close> and calls \<open>load_column_data\<close>. An exception of a handler leaves the attributes
  as they were when it was raised.
\<close>

datatype ui_event =
    FileLoaded table
  | ColumnSelected ustring
  | ButtonPress mouse_event
  | MotionNotify mouse_event
  | ButtonRelease mouse_event
  | CopyClicked clip_env

definition dispatch :: "analyzer \<Rightarrow> ui_event \<Rightarrow> analyzer" where
  "dispatch s e =
     (case e of
        FileLoaded t \<Rightarrow> s\<lparr>df := Some t\<rparr>
      | ColumnSelected c \<Rightarrow> state_of (load_column_data (s\<lparr>col_var := c\<rparr>))
      | ButtonPress ev \<Rightarrow> on_mouse_press s ev
      | MotionNotify ev \<Rightarrow> state_of (on_mouse_move s ev)
      | ButtonRelease ev \<Rightarrow> on_mouse_release s ev
      | CopyClicked env \<Rightarrow> state_of (copy_result_to_clipboard s env))"

fun run :: "analyzer \<Rightarrow> ui_event list \<Rightarrow> analyzer" where
  "run s [] = s"
| "run s (e # es) = run (dispatch s e) es"

subsection \<open>Sessions used as concrete inputs\<close>

text \<open>A table with a column \<open>A\<close> of five values and one missing entry, a column \<open>B\<close> of
  missing entries only, and a column \<open>C\<close> of a single value.\<close>

definition five_table :: table where
  "five_table = [(ascii ''A'', [Some 1, Some 2, None, Some 3, Some 4, Some 5]),
                 (ascii ''B'', [None, None]), (ascii ''C'', [Some 7])]"

definition five_loaded :: analyzer where
  "five_loaded = run (init_analyzer []) [FileLoaded five_table, ColumnSelected (ascii ''A'')]"

definition single_loaded :: analyzer where
  "single_loaded = run (init_analyzer []) [FileLoaded five_table, ColumnSelected (ascii ''C'')]"

definition five_then_empty :: analyzer where
  "five_then_empty = dispatch five_loaded (ColumnSelected (ascii ''B''))"

text \<open>A table with a column of 30000 values: the column is loaded, the button is pressed
  at 10000 (inside the range, away from both edges), and the pointer is moved to 29999.\<close>

definition wide_table :: table where
  "wide_table = [(ascii ''W'', replicate 30000 (Some 0))]"

definition wide_loaded :: analyzer where
  "wide_loaded = run (init_analyzer []) [FileLoaded wide_table, ColumnSelected (ascii ''W'')]"

definition wide_grabbed :: analyzer where
  "wide_grabbed = dispatch wide_loaded (ButtonPress (InAxes 10000))"

definition wide_dragged :: analyzer where
  "wide_dragged = dispatch wide_grabbed (MotionNotify (InAxes 29999))"

text \<open>The same column, pressed at the double nearest to 8669.6 and moved to the double
  nearest to 16552.6.\<close>

definition drift_grabbed :: analyzer where
  "drift_grabbed
     = dispatch wide_loaded (ButtonPress (InAxes (4766163004083405 / 549755813888)))"

definition drift_dragged :: analyzer where
  "drift_dragged
     = dispatch drift_grabbed (MotionNotify (InAxes (2274972021240627 / 137438953472)))"

text \<open>The attributes just before the column \<open>A\<close>, \<open>C\<close> or \<open>B\<close> is loaded, and the five-value
  session after a press at 3; \<open>returned\<close> tells a return from an exception.\<close>

definition five_start :: analyzer where
  "five_start = (init_analyzer [])\<lparr>df := Some five_table, col_var := ascii ''A''\<rparr>"

definition five_grabbed :: analyzer where
  "five_grabbed = dispatch five_loaded (ButtonPress (InAxes 3))"

fun returned :: "outcome \<Rightarrow> bool" where
  "returned (Returned s) = True"
| "returned (Raised e s) = False"

definition single_start :: analyzer where
  "single_start = (init_analyzer [])\<lparr>df := Some five_table, col_var := ascii ''C''\<rparr>"

definition empty_start :: analyzer where
  "empty_start = five_loaded\<lparr>col_var := ascii ''B''\<rparr>"

text \<open>The five-value session with the range \<open>(0, 20000)\<close> that the program starts with.\<close>

definition preload_range :: analyzer where
  "preload_range = five_loaded\<lparr>start_idx := 0, end_idx := 20000\<rparr>"

subsection \<open>Classes of characters\<close>

text \<open>The decimal digits, and the characters of a number in the format \<open>.4f\<close>: digits,
  the minus sign and the point.\<close>

definition is_digit :: "nat \<Rightarrow> bool" where
  "is_digit c = (48 \<le> c \<and> c \<le> 57)"

definition num_char :: "nat \<Rightarrow> bool" where
  "num_char c = (is_digit c \<or> c = 45 \<or> c = 46)"

section \<open>Auxiliary facts\<close>

subsection \<open>What redrawing and recomputing leave alone\<close>

lemma calculate_mean_sel [simp]:
  "start_idx (calculate_mean s) = start_idx s"
  "end_idx (calculate_mean s) = end_idx s"
  "col_data (calculate_mean s) = col_data s"
  "is_dragging (calculate_mean s) = is_dragging s"
  "drag_type (calculate_mean s) = drag_type s"
  "drag_offset (calculate_mean s) = drag_offset s"
  "clipboard (calculate_mean s) = clipboard s"
  "selection_rect (calculate_mean s) = selection_rect s"
  "df (calculate_mean s) = df s"
  "col_var (calculate_mean s) = col_var s"
  "plotted (calculate_mean s) = plotted s"
  "copy_hint_var (calculate_mean s) = copy_hint_var s"
  "copy_hint_fg (calculate_mean s) = copy_hint_fg s"
  by (simp_all add: calculate_mean_def Let_def split: option.splits)

lemma draw_selection_rect_sel [simp]:
  "start_idx (draw_selection_rect s) = start_idx s"
  "end_idx (draw_selection_rect s)
     = (if end_idx s \<le> start_idx s then start_idx s + 1 else end_idx s)"
  "col_data (draw_selection_rect s) = col_data s"
  "is_dragging (draw_selection_rect s) = is_dragging s"
  "drag_type (draw_selection_rect s) = drag_type s"
  "drag_offset (draw_selection_rect s) = drag_offset s"
  "clipboard (draw_selection_rect s) = clipboard s"
  "mean_var (draw_selection_rect s) = mean_var s"
  "df (draw_selection_rect s) = df s"
  "col_var (draw_selection_rect s) = col_var s"
  "plotted (draw_selection_rect s) = plotted s"
  "copy_hint_var (draw_selection_rect s) = copy_hint_var s"
  "copy_hint_fg (draw_selection_rect s) = copy_hint_fg s"
  "selection_rect (draw_selection_rect s)
     = Some (start_idx s, if end_idx s \<le> start_idx s then start_idx s + 1 else end_idx s)"
  by (simp_all add: draw_selection_rect_def Let_def)

lemma on_mouse_press_range [simp]:
  "start_idx (on_mouse_press s ev) = start_idx s"
  "end_idx (on_mouse_press s ev) = end_idx s"
  "col_data (on_mouse_press s ev) = col_data s"
  by (simp_all add: on_mouse_press_def split: mouse_event.splits)

lemma on_mouse_release_range [simp]:
  "start_idx (on_mouse_release s ev) = start_idx s"
  "end_idx (on_mouse_release s ev) = end_idx s"
  "col_data (on_mouse_release s ev) = col_data s"
  by (simp_all add: on_mouse_release_def)

lemma copy_range [simp]:
  "start_idx (state_of (copy_result_to_clipboard s env)) = start_idx s"
  "end_idx (state_of (copy_result_to_clipboard s env)) = end_idx s"
  "col_data (state_of (copy_result_to_clipboard s env)) = col_data s"
  by (simp_all add: copy_result_to_clipboard_def copy_failed_def clipboard_clear_def
      clipboard_append_def Let_def split: list.splits clip_env.splits)

subsection \<open>Truncation\<close>

lemma py_int_clamped: "0 \<le> py_int (max 0 y)"
  by (simp add: py_int_def)

subsection \<open>Rounding to a double, evaluated\<close>

lemmas binary64_eval = binary64_def float_exponent_def pow2_def round_half_even_def
  bit_length.simps Let_def

lemma binary64_values:
  "binary64 19999 = 19999"
  "binary64 30000 = 30000"
  "binary64 1 = 1"
  "binary64 20001 = 20001"
  by (simp_all add: binary64_eval)

lemma binary64_drift:
  "binary64 (2274972021240627 / 137438953472 - 4766163004083405 / 549755813888)
     = 4333725080879103 / 549755813888"
  "binary64 (4333725080879103 / 549755813888) = 4333725080879103 / 549755813888"
  "binary64 (4333725080879103 / 549755813888 + 20000) = 27883"
  "binary64 (15328841358639103 / 549755813888) = 27883"
  by (simp_all add: binary64_eval)

subsection \<open>The sessions, evaluated\<close>

lemma dropna_replicate: "dropna (replicate n (Some v)) = replicate n v"
  by (induction n) simp_all

lemma wide_loaded_fields:
  "col_data wide_loaded = Some (replicate 30000 0)"
  "start_idx wide_loaded = 0"
  "end_idx wide_loaded = 20000"
  "is_dragging wide_loaded = False"
  by (simp_all add: wide_loaded_def wide_table_def init_analyzer_def dispatch_def
      load_column_data_def dropna_replicate Let_def ascii_def)

lemma wide_grabbed_fields:
  "col_data wide_grabbed = Some (replicate 30000 0)"
  "start_idx wide_grabbed = 0"
  "end_idx wide_grabbed = 20000"
  "is_dragging wide_grabbed = True"
  "drag_type wide_grabbed = Some DragMove"
  "drag_offset wide_grabbed = Some 10000"
  by (simp_all add: wide_grabbed_def dispatch_def on_mouse_press_def wide_loaded_fields)

subsection \<open>The range over a session\<close>

lemmas session_defs = init_analyzer_def dispatch_def load_column_data_def five_table_def ascii_def

lemma five_loaded_fields:
  "col_data five_loaded = Some [1, 2, 3, 4, 5]"
  "start_idx five_loaded = 0"
  "end_idx five_loaded = 4"
  "is_dragging five_loaded = False"
  "drag_type five_loaded = None"
  "plotted five_loaded = Some [1, 2, 3, 4, 5]"
  by (simp_all add: five_loaded_def session_defs Let_def)

lemma single_loaded_fields:
  "col_data single_loaded = Some [7]"
  "start_idx single_loaded = 0"
  "end_idx single_loaded = 1"
  "selection_rect single_loaded = Some (0, 1)"
  by (simp_all add: single_loaded_def session_defs Let_def)

lemma five_then_empty_fields:
  "col_data five_then_empty = Some []"
  "start_idx five_then_empty = 0"
  "end_idx five_then_empty = 4"
  "plotted five_then_empty = Some [1, 2, 3, 4, 5]"
  "mean_var five_then_empty = mean_var five_loaded"
  by (simp_all add: five_then_empty_def five_loaded_def session_defs Let_def)

lemma five_grabbed_fields:
  "col_data five_grabbed = Some [1, 2, 3, 4, 5]"
  "start_idx five_grabbed = 0"
  "end_idx five_grabbed = 4"
  "is_dragging five_grabbed = True"
  "drag_type five_grabbed = Some DragStart"
  by (simp_all add: five_grabbed_def dispatch_def on_mouse_press_def five_loaded_fields)

lemma wide_dragged_fields:
  "col_data wide_dragged = Some (replicate 30000 0)"
  "start_idx wide_dragged = 10000"
  "end_idx wide_dragged = 30000"
  by (simp_all add: wide_dragged_def dispatch_def on_mouse_move_def move_whole_def Let_def
      wide_grabbed_fields py_int_def binary64_values)

lemma drift_grabbed_fields:
  "col_data drift_grabbed = Some (replicate 30000 0)"
  "start_idx drift_grabbed = 0"
  "end_idx drift_grabbed = 20000"
  "is_dragging drift_grabbed = True"
  "drag_type drift_grabbed = Some DragMove"
  "drag_offset drift_grabbed = Some (4766163004083405 / 549755813888)"
  by (simp_all add: drift_grabbed_def dispatch_def on_mouse_press_def wide_loaded_fields)

lemma drift_move:
  "move_whole drift_grabbed 30000 (2274972021240627 / 137438953472)
       (4766163004083405 / 549755813888)
     = drift_grabbed\<lparr>start_idx := 7882, end_idx := 27883\<rparr>"
  by (simp add: move_whole_def drift_grabbed_fields binary64_drift Let_def)
     (simp add: py_int_def)

lemma drift_dragged_fields:
  "on_mouse_move drift_grabbed (InAxes (2274972021240627 / 137438953472))
     = Returned drift_dragged"
  "col_data drift_dragged = Some (replicate 30000 0)"
  "start_idx drift_dragged = 7882"
  "end_idx drift_dragged = 27883"
  by (simp_all add: drift_dragged_def dispatch_def on_mouse_move_def drift_grabbed_fields
      drift_move Let_def)

lemma load_ordered:
  "0 \<le> start_idx s \<and> start_idx s < end_idx s \<Longrightarrow>
   0 \<le> start_idx (state_of (load_column_data s))
   \<and> start_idx (state_of (load_column_data s)) < end_idx (state_of (load_column_data s))"
  by (auto simp add: load_column_data_def Let_def split: option.splits)

lemma move_ordered:
  assumes "0 \<le> start_idx s \<and> start_idx s < end_idx s"
  shows "0 \<le> start_idx (state_of (on_mouse_move s ev))
       \<and> start_idx (state_of (on_mouse_move s ev)) < end_idx (state_of (on_mouse_move s ev))"
  using assms py_int_clamped
  by (auto simp add: on_mouse_move_def move_start_def move_end_def move_whole_def Let_def
      split: option.splits mouse_event.splits drag_kind.splits)

lemma dispatch_ordered:
  assumes "0 \<le> start_idx s \<and> start_idx s < end_idx s"
  shows "0 \<le> start_idx (dispatch s e) \<and> start_idx (dispatch s e) < end_idx (dispatch s e)"
proof (cases e)
  case (ColumnSelected c)
  have "0 \<le> start_idx (s\<lparr>col_var := c\<rparr>) \<and> start_idx (s\<lparr>col_var := c\<rparr>) < end_idx (s\<lparr>col_var := c\<rparr>)"
    using assms by simp
  then show ?thesis unfolding dispatch_def ColumnSelected ui_event.case by (rule load_ordered)
next
  case (MotionNotify ev)
  then show ?thesis using move_ordered [OF assms] by (simp add: dispatch_def)
qed (use assms in \<open>simp_all add: dispatch_def\<close>)

lemma run_ordered:
  "0 \<le> start_idx s \<and> start_idx s < end_idx s \<Longrightarrow>
   0 \<le> start_idx (run s es) \<and> start_idx (run s es) < end_idx (run s es)"
proof (induction es arbitrary: s)
  case Nil
  then show ?case by simp
next
  case (Cons e es)
  from Cons.prems have "0 \<le> start_idx (dispatch s e) \<and> start_idx (dispatch s e) < end_idx (dispatch s e)"
    by (rule dispatch_ordered)
  then show ?case using Cons.IH by simp
qed

lemma load_empty:
  assumes "df s = Some t" and "col_var s \<noteq> []" and "map_of t (col_var s) = Some col"
    and "dropna col = []"
  shows "load_column_data s = Raised AttributeError (s\<lparr>col_data := Some []\<rparr>)"
  using assms by (simp add: load_column_data_def Let_def)

lemma load_two_or_more:
  assumes "df s = Some t" and "col_var s \<noteq> []" and "map_of t (col_var s) = Some col"
    and "2 \<le> length (dropna col)"
  shows "\<exists>s'. load_column_data s = Returned s' \<and> col_data s' = Some (dropna col)
           \<and> start_idx s' = 0 \<and> end_idx s' = min 20000 (int (length (dropna col)) - 1)"
  using assms by (auto simp add: load_column_data_def Let_def)

lemma py_int_upper: "0 \<le> n \<Longrightarrow> py_int (max 0 (min (of_int n) x)) \<le> n"
  by (simp add: py_int_def floor_le_iff min_def max_def; linarith)

lemma edge_drag_bounded:
  assumes "col_data s = Some d" and "0 \<le> start_idx s" and "start_idx s < end_idx s"
    and "end_idx s \<le> int (length d) - 1"
    and "drag_type s = Some DragStart \<or> drag_type s = Some DragEnd"
  shows "\<exists>s'. on_mouse_move s ev = Returned s' \<and> col_data s' = Some d
           \<and> 0 \<le> start_idx s' \<and> start_idx s' < end_idx s'
           \<and> end_idx s' \<le> int (length d) - 1"
proof -
  have n: "0 \<le> int (length d) - 1" using assms by linarith
  have up: "py_int (max 0 (min (of_int (int (length d) - 1)) x)) \<le> int (length d) - 1" for x
    using n by (rule py_int_upper)
  have lo: "0 \<le> py_int (max 0 (min (of_int (int (length d) - 1)) x))" for x
    by (rule py_int_clamped)
  show ?thesis
    using assms up lo
    by (auto simp add: on_mouse_move_def move_start_def move_end_def Let_def
        split: mouse_event.splits)
qed

lemma five_start_fields:
  "df five_start = Some five_table"
  "col_var five_start = [65]"
  "map_of five_table [65] = Some [Some 1, Some 2, None, Some 3, Some 4, Some 5]"
  "dropna [Some 1, Some 2, None, Some 3, Some 4, Some 5] = [1, 2, 3, 4, 5]"
  by (simp_all add: five_start_def five_table_def ascii_def)

lemma empty_start_fields:
  "df empty_start = Some five_table"
  "col_var empty_start = [66]"
  "map_of five_table [66] = Some [None, None]"
  "start_idx empty_start = 0"
  "end_idx empty_start = 4"
  by (simp_all add: empty_start_def five_loaded_def session_defs Let_def)

lemma single_start_loads:
  "load_column_data single_start = Returned single_loaded"
  by (simp add: single_start_def single_loaded_def session_defs Let_def)

subsection \<open>Slices inside the column\<close>

lemma sum_list_take_drop:
  assumes "m + k \<le> length d"
  shows "sum_list (take k (drop m d)) = (\<Sum>i = m..<m + k. (d ! i :: real))"
proof -
  have len: "length (take k (drop m d)) = k" using assms by simp
  have "sum_list (take k (drop m d)) = (\<Sum>i = 0..<k. take k (drop m d) ! i)"
    using sum_list_sum_nth [of "take k (drop m d)"] len by simp
  also have "\<dots> = (\<Sum>i = 0..<k. d ! (i + m))"
    using assms by (intro sum.cong) (simp_all add: add.commute)
  also have "\<dots> = (\<Sum>i = 0 + m..<k + m. d ! i)"
    by (rule sum.shift_bounds_nat_ivl [symmetric])
  finally show ?thesis by (simp add: add.commute)
qed

lemma py_slice_inside:
  assumes "0 \<le> a" and "a < b" and "b < int (length d)"
  shows "py_slice d a (b + 1) = take (nat (b - a + 1)) (drop (nat a) d)"
proof -
  have "nat (b + 1 - a) = nat (b - a + 1)" by (rule arg_cong [where f = nat]) linarith
  moreover have "py_slice d a (b + 1) = take (nat (b + 1 - a)) (drop (nat a) d)"
    using assms by (simp add: py_slice_def slice_bound_def Let_def)
  ultimately show ?thesis by (simp only:)
qed

lemma py_slice_inside_length:
  assumes "0 \<le> a" and "a < b" and "b < int (length d)"
  shows "length (py_slice d a (b + 1)) = nat (b - a + 1)"
  using assms by (simp add: py_slice_inside)

lemma py_slice_inside_nth:
  assumes "0 \<le> a" and "a < b" and "b < int (length d)"
  shows "py_slice d a (b + 1) = map (\<lambda>i. d ! i) [nat a..<nat b + 1]"
proof (rule nth_equalityI)
  show "length (py_slice d a (b + 1)) = length (map (\<lambda>i. d ! i) [nat a..<nat b + 1])"
    using assms by (simp add: py_slice_inside_length) linarith
next
  fix i assume "i < length (py_slice d a (b + 1))"
  then have i: "i < nat (b - a + 1)" using assms by (simp add: py_slice_inside_length)
  then have "i < nat b + 1 - nat a" using assms by linarith
  then have "map (\<lambda>i. d ! i) [nat a..<nat b + 1] ! i = d ! (nat a + i)"
    by (rule nth_map_upt)
  moreover have "py_slice d a (b + 1) ! i = d ! (nat a + i)"
    using assms i by (simp add: py_slice_inside)
  ultimately show "py_slice d a (b + 1) ! i = map (\<lambda>i. d ! i) [nat a..<nat b + 1] ! i"
    by simp
qed

lemma py_slice_inside_sum:
  assumes "0 \<le> a" and "a < b" and "b < int (length d)"
  shows "sum_list (py_slice d a (b + 1)) = (\<Sum>i = nat a..nat b. (d ! i :: real))"
proof -
  have le: "nat a + nat (b - a + 1) \<le> length d" using assms by linarith
  have eq: "nat a + nat (b - a + 1) = Suc (nat b)" using assms by linarith
  have "sum_list (py_slice d a (b + 1)) = (\<Sum>i = nat a..<nat a + nat (b - a + 1). d ! i)"
    using assms sum_list_take_drop [OF le] by (simp add: py_slice_inside)
  also have "\<dots> = (\<Sum>i = nat a..nat b. d ! i)"
    unfolding eq by (simp add: atLeastLessThanSuc_atLeastAtMost)
  finally show ?thesis .
qed

lemma calculate_mean_Some:
  assumes "col_data s = Some d"
  shows "calculate_mean s
       = (if min (int (length d) - 1) (end_idx s) \<le> max 0 (start_idx s)
          then s\<lparr>mean_var := placeholder_text\<rparr>
          else s\<lparr>mean_var := mean_label @ format_4f (np_mean
                 (py_slice d (max 0 (start_idx s)) (min (int (length d) - 1) (end_idx s) + 1)))\<rparr>)"
  using assms by (simp add: calculate_mean_def Let_def)

lemma np_mean_inside:
  assumes "0 \<le> a" and "a < b" and "b < int (length d)"
  shows "np_mean (py_slice d a (b + 1))
       = Some ((\<Sum>i = nat a..nat b. d ! i) / real (nat (b - a + 1)))"
proof -
  have "length (py_slice d a (b + 1)) = nat (b - a + 1)"
    using assms by (rule py_slice_inside_length)
  moreover from this have "py_slice d a (b + 1) \<noteq> []" using assms(2) by auto
  moreover have "sum_list (py_slice d a (b + 1)) = (\<Sum>i = nat a..nat b. d ! i)"
    using assms by (rule py_slice_inside_sum)
  ultimately show ?thesis by (simp add: np_mean_def)
qed

subsection \<open>Sessions for the mean\<close>

lemma fmt0: "format_4f (Some 0) = ascii ''0.0000''"
  by (simp add: format_4f_def round_half_even_def pad4_def digits10.simps ascii_def Let_def)

lemma preload_range_fields:
  "col_data preload_range = Some [1, 2, 3, 4, 5]"
  "start_idx preload_range = 0"
  "end_idx preload_range = 20000"
  by (simp_all add: preload_range_def five_loaded_fields)

subsection \<open>The characters of a formatted mean\<close>

lemma is_digit_mod: "is_digit (48 + j mod 10)"
proof -
  have "j mod 10 < 10" by simp
  then show ?thesis unfolding is_digit_def by linarith
qed

lemma digits10_digits: "\<forall>c \<in> set (digits10 n). is_digit c"
proof (induction n rule: digits10.induct)
  case (1 n)
  show ?case
  proof (cases "n < 10")
    case True
    then show ?thesis by (simp add: is_digit_def digits10.simps [of n])
  next
    case False
    have "digits10 n = digits10 (n div 10) @ [48 + n mod 10]"
      using False by (simp add: digits10.simps [of n])
    then show ?thesis using 1 False is_digit_mod [of n] by simp
  qed
qed

lemma digits10_nonempty: "digits10 n \<noteq> []"
  by (subst digits10.simps) simp

lemma pad4_digits: "\<forall>c \<in> set (pad4 k). is_digit c"
  by (simp add: pad4_def is_digit_mod)

lemma format_4f_Some:
  "format_4f (Some m)
     = (if m < 0 then [45] else [])
       @ digits10 (nat (round_half_even (\<bar>m\<bar> * 10000)) div 10000)
       @ 46 # pad4 (nat (round_half_even (\<bar>m\<bar> * 10000)) mod 10000)"
  by (simp add: format_4f_def Let_def ascii_def)

lemma format_4f_chars: "\<forall>c \<in> set (format_4f (Some m)). num_char c"
  using digits10_digits pad4_digits
  by (auto simp add: format_4f_Some num_char_def)

lemma num_char_not_colon: "num_char c \<Longrightarrow> c \<noteq> colon"
  by (auto simp add: num_char_def is_digit_def colon_def)

lemma num_char_not_space: "num_char c \<Longrightarrow> \<not> isspace c"
  by (auto simp add: num_char_def is_digit_def isspace_def)

lemma format_4f_no_colon: "colon \<notin> set (format_4f (Some m))"
  using format_4f_chars num_char_not_colon by blast

lemma digits10_head: "\<exists>x xs. digits10 n = x # xs \<and> is_digit x"
proof (cases "digits10 n")
  case Nil
  then show ?thesis using digits10_nonempty by blast
next
  case (Cons x xs)
  then have "x \<in> set (digits10 n)" by simp
  then have "is_digit x" using digits10_digits by blast
  with Cons show ?thesis by blast
qed

lemma format_4f_no_double_dash: "take 2 (format_4f (Some m)) \<noteq> [45, 45]"
proof -
  obtain x xs where d: "digits10 (nat (round_half_even (\<bar>m\<bar> * 10000)) div 10000) = x # xs"
    and x: "is_digit x"
    using digits10_head by blast
  from x have "x \<noteq> 45" by (auto simp add: is_digit_def)
  then show ?thesis by (simp add: format_4f_Some d)
qed

lemma contains_absent: "c \<notin> set xs \<Longrightarrow> \<not> contains (c # r) xs"
  by (induction xs) auto

lemma split_on_absent: "c \<notin> set xs \<Longrightarrow> split_on c xs = [xs]"
  by (induction xs) auto

lemma dropWhile_none: "\<forall>c \<in> set xs. \<not> P c \<Longrightarrow> dropWhile P xs = xs"
  by (cases xs) auto

lemma py_strip_id: "\<forall>c \<in> set xs. \<not> isspace c \<Longrightarrow> py_strip xs = xs"
  by (simp add: py_strip_def dropWhile_none)

lemma py_strip_format_4f: "py_strip (format_4f (Some m)) = format_4f (Some m)"
  using format_4f_chars num_char_not_space by (intro py_strip_id) blast

lemma placeholder_contains: "contains (colon # ascii ''--'') placeholder_text"
  by (simp add: placeholder_text_def mean_label_def ascii_def colon_def)

lemma valid_text_contains:
  "\<not> contains (colon # ascii ''--'') (mean_label @ format_4f (Some m))"
  using format_4f_no_double_dash [of m] contains_absent [OF format_4f_no_colon, of "ascii ''--''" m]
  by (simp add: mean_label_def ascii_def) (simp add: colon_def numeral_2_eq_2)

lemma valid_text_split:
  "split_on colon (mean_label @ format_4f (Some m))
     = [[36873, 20013, 21306, 22495, 24179, 22343, 20540], format_4f (Some m)]"
  using split_on_absent [OF format_4f_no_colon, of m]
  by (simp add: mean_label_def) (simp add: colon_def)

lemma fmt3: "format_4f (Some 3) = ascii ''3.0000''"
  by (simp add: format_4f_def round_half_even_def pad4_def digits10.simps ascii_def Let_def)

lemma five_loaded_mean_var: "mean_var five_loaded = mean_label @ format_4f (Some 3)"
  unfolding fmt3
  by (simp add: five_loaded_def session_defs calculate_mean_def draw_selection_rect_def
      py_slice_def slice_bound_def np_mean_def format_4f_def round_half_even_def pad4_def digits10.simps Let_def)

section \<open>The claims\<close>

subsection \<open>C4: the width over a whole-span drag\<close>

text \<open>
  C4. At the failing input: a column of 30000 values with the range \<open>(0, 20000)\<close>, a
  press at the double nearest to 8669.6 and a move to the double nearest to 16552.6.
  The difference of the two is the double \<open>7883 - 2^-39\<close>; adding the width 20000 to it
  gives a number halfway between two doubles, which rounds to \<open>27883\<close>. The two results
  are truncated one by one, to 7882 and 27883: the width, 20000 before the move, is
  20001 after it.
\<close>

theorem whole_span_drag_changes_width:
  "start_idx drift_grabbed = 0 \<and> end_idx drift_grabbed = 20000
   \<and> is_dragging drift_grabbed \<and> drag_type drift_grabbed = Some DragMove
   \<and> drag_offset drift_grabbed = Some (4766163004083405 / 549755813888)
   \<and> on_mouse_move drift_grabbed (InAxes (2274972021240627 / 137438953472))
       = Returned drift_dragged
   \<and> start_idx drift_dragged = 7882 \<and> end_idx drift_dragged = 27883
   \<and> end_idx drift_dragged - start_idx drift_dragged
       \<noteq> end_idx drift_grabbed - start_idx drift_grabbed"
  by (simp add: drift_grabbed_fields drift_dragged_fields)

subsection \<open>C1: the range over every sequence of events\<close>

text \<open>
  C1, as stated, fails: a column with a single value is loaded (only an empty column is
  turned away), and the redraw then moves the end to \<open>start_idx + 1 = 1\<close>, which is the
  length of the column and not below it.
\<close>

theorem single_value_column_breaks_bound:
  "col_data single_loaded = Some [7] \<and> start_idx single_loaded = 0
   \<and> end_idx single_loaded = 1 \<and> \<not> end_idx single_loaded \<le> int (length [7 :: real]) - 1"
  by (simp add: single_loaded_fields)

text \<open>
  C1, amended. After every sequence of events, from the start of the program on,
  \<open>0 \<le> start_idx < end_idx\<close>. The upper bound \<open>end_idx \<le> len(col_data) - 1\<close> holds after
  the load of a column with at least two values, and a drag of the start edge or of the
  end edge keeps it. (Nothing is said here of the upper bound after a whole-span drag.)
\<close>

theorem selection_range_invariant:
  "(0 \<le> start_idx (run (init_analyzer cb) es)
      \<and> start_idx (run (init_analyzer cb) es) < end_idx (run (init_analyzer cb) es))
   \<and> (df s = Some t \<and> col_var s \<noteq> [] \<and> map_of t (col_var s) = Some col
        \<and> 2 \<le> length (dropna col)
      \<longrightarrow> (\<exists>s'. load_column_data s = Returned s' \<and> col_data s' = Some (dropna col)
             \<and> 0 \<le> start_idx s' \<and> start_idx s' < end_idx s'
             \<and> end_idx s' \<le> int (length (dropna col)) - 1))
   \<and> (col_data u = Some d \<and> 0 \<le> start_idx u \<and> start_idx u < end_idx u
        \<and> end_idx u \<le> int (length d) - 1
        \<and> (drag_type u = Some DragStart \<or> drag_type u = Some DragEnd)
      \<longrightarrow> (\<exists>u'. on_mouse_move u ev = Returned u' \<and> col_data u' = Some d
             \<and> 0 \<le> start_idx u' \<and> start_idx u' < end_idx u'
             \<and> end_idx u' \<le> int (length d) - 1))"
proof (intro conjI impI)
  have "0 \<le> start_idx (init_analyzer cb) \<and> start_idx (init_analyzer cb) < end_idx (init_analyzer cb)"
    by (simp add: init_analyzer_def)
  then have r: "0 \<le> start_idx (run (init_analyzer cb) es)
      \<and> start_idx (run (init_analyzer cb) es) < end_idx (run (init_analyzer cb) es)"
    by (rule run_ordered)
  from r show "0 \<le> start_idx (run (init_analyzer cb) es)" ..
  from r show "start_idx (run (init_analyzer cb) es) < end_idx (run (init_analyzer cb) es)" ..
next
  assume a: "df s = Some t \<and> col_var s \<noteq> [] \<and> map_of t (col_var s) = Some col
        \<and> 2 \<le> length (dropna col)"
  then obtain s' where "load_column_data s = Returned s'" "col_data s' = Some (dropna col)"
    "start_idx s' = 0" "end_idx s' = min 20000 (int (length (dropna col)) - 1)"
    using load_two_or_more [of s t col] by blast
  moreover have "0 < min 20000 (int (length (dropna col)) - 1)" using a by simp
  ultimately show "\<exists>s'. load_column_data s = Returned s' \<and> col_data s' = Some (dropna col)
             \<and> 0 \<le> start_idx s' \<and> start_idx s' < end_idx s'
             \<and> end_idx s' \<le> int (length (dropna col)) - 1"
    by simp
next
  assume "col_data u = Some d \<and> 0 \<le> start_idx u \<and> start_idx u < end_idx u
        \<and> end_idx u \<le> int (length d) - 1
        \<and> (drag_type u = Some DragStart \<or> drag_type u = Some DragEnd)"
  then show "\<exists>u'. on_mouse_move u ev = Returned u' \<and> col_data u' = Some d
             \<and> 0 \<le> start_idx u' \<and> start_idx u' < end_idx u'
             \<and> end_idx u' \<le> int (length d) - 1"
    using edge_drag_bounded [of u d ev] by blast
qed

theorem selection_range_invariant_witness:
  "df five_start = Some five_table \<and> col_var five_start \<noteq> []
   \<and> map_of five_table (col_var five_start) = Some [Some 1, Some 2, None, Some 3, Some 4, Some 5]
   \<and> 2 \<le> length (dropna [Some 1, Some 2, None, Some 3, Some 4, Some 5])
   \<and> col_data five_grabbed = Some [1, 2, 3, 4, 5] \<and> 0 \<le> start_idx five_grabbed
   \<and> start_idx five_grabbed < end_idx five_grabbed
   \<and> end_idx five_grabbed \<le> int (length [1, 2, 3, 4, 5 :: real]) - 1
   \<and> drag_type five_grabbed = Some DragStart
   \<and> start_idx (run (init_analyzer [])
         [FileLoaded wide_table, ColumnSelected (ascii ''W''), ButtonPress (InAxes 10000),
          MotionNotify (InAxes 29999)])
       < end_idx (run (init_analyzer [])
         [FileLoaded wide_table, ColumnSelected (ascii ''W''), ButtonPress (InAxes 10000),
          MotionNotify (InAxes 29999)])
   \<and> returned (load_column_data five_start)
   \<and> end_idx (state_of (load_column_data five_start)) \<le> 4
   \<and> returned (on_mouse_move five_grabbed (InAxes (5 / 2)))
   \<and> end_idx (state_of (on_mouse_move five_grabbed (InAxes (5 / 2)))) \<le> 4"
  using selection_range_invariant [of "[]"
      "[FileLoaded wide_table, ColumnSelected (ascii ''W''), ButtonPress (InAxes 10000),
        MotionNotify (InAxes 29999)]"
      five_start five_table "[Some 1, Some 2, None, Some 3, Some 4, Some 5]"
      five_grabbed "[1, 2, 3, 4, 5]" "InAxes (5 / 2)"]
  by (auto simp add: five_start_fields five_grabbed_fields)

subsection \<open>C3: the bound of a whole-span drag\<close>

text \<open>
  C3. At the failing input: in a column of 30000 values with the range \<open>(0, 20000)\<close>, a
  press at 10000 and a move to 29999 leave \<open>end_idx = 30000\<close>, the length of the column,
  outside \<open>[0, length - 1]\<close>. The new start is cut to \<open>len(col_data) - width\<close>, where the
  other paths cut to \<open>len(col_data) - 1\<close>.
\<close>

theorem whole_span_drag_reaches_length:
  "col_data wide_dragged = Some (replicate 30000 0) \<and> start_idx wide_dragged = 10000
   \<and> end_idx wide_dragged = 30000
   \<and> \<not> end_idx wide_dragged \<le> int (length (replicate 30000 (0 :: real))) - 1"
  by (simp add: wide_dragged_fields)

subsection \<open>C5: the range set by loading a column\<close>

text \<open>
  C5, as stated, fails: for a column of length 1 the load returns, without raising, and
  sets the range \<open>(0, 1)\<close>, where \<open>min(20000, length - 1) = 0\<close>.
\<close>

theorem single_value_column_is_loaded:
  "returned (load_column_data single_start)
   \<and> state_of (load_column_data single_start) = single_loaded
   \<and> col_var single_start = ascii ''C''
   \<and> map_of five_table (ascii ''C'') = Some [Some 7]
   \<and> length (dropna [Some 7]) = 1
   \<and> col_data single_loaded = Some [7]
   \<and> start_idx single_loaded = 0 \<and> end_idx single_loaded = 1
   \<and> selection_rect single_loaded = Some (0, 1)
   \<and> end_idx single_loaded \<noteq> min 20000 (int (length [7 :: real]) - 1)"
  by (simp add: single_start_loads single_loaded_fields)
     (simp add: single_start_def init_analyzer_def five_table_def ascii_def)

text \<open>
  C5, amended. Loading a column with \<open>n\<close> values after cleaning: for \<open>n = 0\<close> the handler
  does not return: it raises \<open>AttributeError\<close> at the warning call, with \<open>start_idx\<close> and
  \<open>end_idx\<close> as they were (and \<open>col_data\<close> emptied, see C9); for \<open>n \<ge> 1\<close> it returns with
  \<open>start_idx = 0\<close> and \<open>end_idx = min 20000 (n - 1)\<close>, except that for \<open>n = 1\<close> the redraw
  leaves \<open>end_idx = 1\<close>.
\<close>

theorem load_column_resets_range:
  assumes "df s = Some t" and "col_var s \<noteq> []" and "map_of t (col_var s) = Some col"
  shows "(length (dropna col) = 0
            \<longrightarrow> load_column_data s = Raised AttributeError (s\<lparr>col_data := Some []\<rparr>))
       \<and> (1 \<le> length (dropna col)
            \<longrightarrow> (\<exists>s'. load_column_data s = Returned s'
                   \<and> col_data s' = Some (dropna col) \<and> start_idx s' = 0
                   \<and> end_idx s' = (if length (dropna col) = 1 then 1
                                    else min 20000 (int (length (dropna col)) - 1))))"
  using assms by (auto simp add: load_column_data_def Let_def)

theorem load_column_resets_range_witness:
  "df five_start = Some five_table \<and> col_var five_start \<noteq> []
   \<and> map_of five_table (col_var five_start) = Some [Some 1, Some 2, None, Some 3, Some 4, Some 5]
   \<and> 1 \<le> length (dropna [Some 1, Some 2, None, Some 3, Some 4, Some 5])
   \<and> df empty_start = Some five_table \<and> col_var empty_start \<noteq> []
   \<and> map_of five_table (col_var empty_start) = Some [None, None]
   \<and> length (dropna [None, None]) = 0
   \<and> returned (load_column_data five_start)
   \<and> start_idx (state_of (load_column_data five_start)) = 0
   \<and> end_idx (state_of (load_column_data five_start)) = 4
   \<and> \<not> returned (load_column_data empty_start)
   \<and> start_idx (state_of (load_column_data empty_start)) = 0
   \<and> end_idx (state_of (load_column_data empty_start)) = 4"
  using load_column_resets_range [of five_start five_table
      "[Some 1, Some 2, None, Some 3, Some 4, Some 5]"]
    load_column_resets_range [of empty_start five_table "[None, None]"]
  by (auto simp add: five_start_fields empty_start_fields)

subsection \<open>C9: loading an empty column\<close>

text \<open>
  C9. At the failing input: after the column \<open>A\<close> (values 1 to 5) is loaded, the column
  \<open>B\<close>, which has no valid value, is selected. The range, the text of the mean and the
  plotted waveform stay, but \<open>col_data\<close> is now the empty sequence: it is assigned before
  the length is tested. The warning is not shown either: the call raises
  \<open>AttributeError\<close>.
\<close>

theorem empty_column_overwrites_col_data:
  "col_data five_loaded = Some [1, 2, 3, 4, 5]
   \<and> five_then_empty = state_of (load_column_data (five_loaded\<lparr>col_var := ascii ''B''\<rparr>))
   \<and> load_column_data (five_loaded\<lparr>col_var := ascii ''B''\<rparr>)
       = Raised AttributeError five_then_empty
   \<and> col_data five_then_empty = Some []
   \<and> plotted five_then_empty = Some [1, 2, 3, 4, 5]
   \<and> start_idx five_then_empty = start_idx five_loaded
   \<and> end_idx five_then_empty = end_idx five_loaded
   \<and> mean_var five_then_empty = mean_var five_loaded"
proof -
  have "load_column_data empty_start = Raised AttributeError (empty_start\<lparr>col_data := Some []\<rparr>)"
    by (rule load_empty [of empty_start five_table "[None, None]"])
      (simp_all add: empty_start_fields)
  then have r: "load_column_data (five_loaded\<lparr>col_var := ascii ''B''\<rparr>)
      = Raised AttributeError (empty_start\<lparr>col_data := Some []\<rparr>)"
    by (simp only: empty_start_def)
  have e: "five_then_empty = state_of (load_column_data (five_loaded\<lparr>col_var := ascii ''B''\<rparr>))"
    by (simp add: five_then_empty_def dispatch_def)
  then have "five_then_empty = empty_start\<lparr>col_data := Some []\<rparr>"
    unfolding r by simp
  with r have "load_column_data (five_loaded\<lparr>col_var := ascii ''B''\<rparr>)
      = Raised AttributeError five_then_empty"
    by (simp only:)
  with e show ?thesis
    by (simp add: five_then_empty_fields five_loaded_fields)
qed

subsection \<open>C6: hit-testing of a press\<close>



subsection \<open>C7: release, and leaving the axes\<close>

text \<open>
  C7, as stated, fails: a motion event outside the axes returns at once, so a drag that
  is under way stays active and goes on when the pointer comes back; and a release leaves
  the recorded offset where it is.
\<close>

theorem drag_survives_leaving_the_axes:
  "is_dragging wide_grabbed
   \<and> is_dragging (state_of (on_mouse_move wide_grabbed OffAxes))
   \<and> drag_type (state_of (on_mouse_move wide_grabbed OffAxes)) = Some DragMove
   \<and> end_idx (run wide_grabbed [MotionNotify OffAxes, MotionNotify (InAxes 10001)]) = 20001
   \<and> drag_offset (on_mouse_release wide_grabbed OffAxes) = Some 10000"
  by (simp add: wide_grabbed_fields on_mouse_move_def on_mouse_release_def dispatch_def
      move_whole_def py_int_def binary64_values Let_def)

text \<open>
  C7, amended. A release sets \<open>is_dragging\<close> to false and \<open>drag_type\<close> to none, and leaves
  the recorded offset and the range as they are; a motion event outside the axes changes
  nothing, an active drag included; a release while no drag is active changes nothing.
\<close>

theorem release_and_leaving_the_axes:
  "is_dragging (on_mouse_release s ev) = False
   \<and> drag_type (on_mouse_release s ev) = None
   \<and> drag_offset (on_mouse_release s ev) = drag_offset s
   \<and> start_idx (on_mouse_release s ev) = start_idx s
   \<and> end_idx (on_mouse_release s ev) = end_idx s
   \<and> on_mouse_move s OffAxes = Returned s
   \<and> (\<not> is_dragging s \<and> drag_type s = None \<longrightarrow> on_mouse_release s ev = s)"
  by (auto simp add: on_mouse_release_def on_mouse_move_def split: option.splits)

theorem release_and_leaving_the_axes_witness:
  "\<not> is_dragging (init_analyzer []) \<and> drag_type (init_analyzer []) = None
   \<and> on_mouse_release (init_analyzer []) OffAxes = init_analyzer []
   \<and> drag_offset (on_mouse_release wide_grabbed (InAxes 10000)) = Some 10000
   \<and> on_mouse_move wide_grabbed OffAxes = Returned wide_grabbed"
  using release_and_leaving_the_axes [of "init_analyzer []" OffAxes]
    release_and_leaving_the_axes [of wide_grabbed "InAxes 10000"]
  by (simp add: wide_grabbed_fields) (simp add: init_analyzer_def)

subsection \<open>C2: the mean that is displayed\<close>



subsection \<open>C10: the mean is computed for every pair of indices\<close>

text \<open>
  C10. \<open>_calculate_mean\<close> is defined for every \<open>start_idx\<close> and \<open>end_idx\<close>. Without a column
  it changes nothing. With a column \<open>d\<close>, \<open>a = max 0 start_idx\<close> and
  \<open>b = min (len d - 1) end_idx\<close>, either \<open>b \<le> a\<close> and the placeholder is set, or
  \<open>0 \<le> a < b < len d\<close>: the slice \<open>d[a : b + 1]\<close> is then exactly the elements at the
  indices \<open>a, ..., b\<close>, each below \<open>len d\<close>, it is not empty, so \<open>np.mean\<close> is a number, and
  the text is the label and that number. The witness takes \<open>end_idx = len d\<close> (the state
  after the whole-span drag of C3) and \<open>end_idx = 20000\<close> on five values.
\<close>

theorem calculate_mean_total:
  "(col_data s = None \<longrightarrow> calculate_mean s = s)
   \<and> (col_data s = Some d \<and> a = max 0 (start_idx s)
        \<and> b = min (int (length d) - 1) (end_idx s)
      \<longrightarrow> (b \<le> a \<and> calculate_mean s = s\<lparr>mean_var := placeholder_text\<rparr>)
        \<or> (a < b \<and> 0 \<le> a \<and> b < int (length d)
           \<and> py_slice d a (b + 1) = map (\<lambda>i. d ! i) [nat a..<nat b + 1]
           \<and> (\<forall>i \<in> set [nat a..<nat b + 1]. i < length d)
           \<and> (\<exists>m. np_mean (py_slice d a (b + 1)) = Some m
                \<and> calculate_mean s = s\<lparr>mean_var := mean_label @ format_4f (Some m)\<rparr>)))"
proof (intro conjI impI)
  assume "col_data s = None"
  then show "calculate_mean s = s" by (simp add: calculate_mean_def)
next
  assume h: "col_data s = Some d \<and> a = max 0 (start_idx s)
        \<and> b = min (int (length d) - 1) (end_idx s)"
  then have cd: "col_data s = Some d" and a: "a = max 0 (start_idx s)"
    and b: "b = min (int (length d) - 1) (end_idx s)" by simp_all
  have cm: "calculate_mean s
       = (if b \<le> a then s\<lparr>mean_var := placeholder_text\<rparr>
          else s\<lparr>mean_var := mean_label @ format_4f (np_mean (py_slice d a (b + 1)))\<rparr>)"
    using calculate_mean_Some [OF cd] unfolding a b .
  have a0: "0 \<le> a" using a by simp
  have bn: "b < int (length d)" using b by simp
  show "(b \<le> a \<and> calculate_mean s = s\<lparr>mean_var := placeholder_text\<rparr>)
        \<or> (a < b \<and> 0 \<le> a \<and> b < int (length d)
           \<and> py_slice d a (b + 1) = map (\<lambda>i. d ! i) [nat a..<nat b + 1]
           \<and> (\<forall>i \<in> set [nat a..<nat b + 1]. i < length d)
           \<and> (\<exists>m. np_mean (py_slice d a (b + 1)) = Some m
                \<and> calculate_mean s = s\<lparr>mean_var := mean_label @ format_4f (Some m)\<rparr>))"
  proof (cases "b \<le> a")
    case True
    then show ?thesis by (simp add: cm)
  next
    case False
    then have lt: "a < b" by simp
    have sl: "py_slice d a (b + 1) = map (\<lambda>i. d ! i) [nat a..<nat b + 1]"
      using a0 lt bn by (rule py_slice_inside_nth)
    have ix: "\<forall>i \<in> set [nat a..<nat b + 1]. i < length d"
      using bn a0 lt by auto
    have "np_mean (py_slice d a (b + 1))
        = Some ((\<Sum>i = nat a..nat b. d ! i) / real (nat (b - a + 1)))"
      using a0 lt bn by (rule np_mean_inside)
    then have "\<exists>m. np_mean (py_slice d a (b + 1)) = Some m
        \<and> calculate_mean s = s\<lparr>mean_var := mean_label @ format_4f (Some m)\<rparr>"
      using False by (simp add: cm)
    with lt a0 bn sl ix show ?thesis by blast
  qed
qed

theorem calculate_mean_total_witness:
  "col_data wide_dragged = Some (replicate 30000 0)
   \<and> end_idx wide_dragged = int (length (replicate 30000 (0 :: real)))
   \<and> (10000 :: int) = max 0 (start_idx wide_dragged)
   \<and> (29999 :: int) = min (int (length (replicate 30000 (0 :: real))) - 1) (end_idx wide_dragged)
   \<and> calculate_mean wide_dragged = wide_dragged\<lparr>mean_var := mean_label @ ascii ''0.0000''\<rparr>
   \<and> col_data preload_range = Some [1, 2, 3, 4, 5]
   \<and> end_idx preload_range = 20000
   \<and> (0 :: int) = max 0 (start_idx preload_range)
   \<and> (4 :: int) = min (int (length [1, 2, 3, 4, 5 :: real]) - 1) (end_idx preload_range)
   \<and> py_slice [1, 2, 3, 4, 5 :: real] 0 (4 + 1) = [1, 2, 3, 4, 5]
   \<and> col_data (init_analyzer []) = None
   \<and> calculate_mean (init_analyzer []) = init_analyzer []"
proof -
  have w: "col_data wide_dragged = Some (replicate 30000 0)
      \<and> (10000 :: int) = max 0 (start_idx wide_dragged)
      \<and> (29999 :: int) = min (int (length (replicate 30000 (0 :: real))) - 1) (end_idx wide_dragged)"
    by (simp add: wide_dragged_fields)
  have p: "col_data preload_range = Some [1, 2, 3, 4, 5]
      \<and> (0 :: int) = max 0 (start_idx preload_range)
      \<and> (4 :: int) = min (int (length [1, 2, 3, 4, 5 :: real]) - 1) (end_idx preload_range)"
    by (simp add: preload_range_fields)
  have i: "col_data (init_analyzer []) = None" by (simp add: init_analyzer_def)
  have m: "np_mean (py_slice (replicate 30000 (0 :: real)) 10000 (29999 + 1)) = Some 0"
    by (simp add: np_mean_def py_slice_def slice_bound_def Let_def sum_list_replicate)
  have n: "\<not> (29999 :: int) \<le> 10000" by simp
  from calculate_mean_total [of wide_dragged "replicate 30000 0" 10000 29999] w n
  have "\<exists>m. np_mean (py_slice (replicate 30000 (0 :: real)) 10000 (29999 + 1)) = Some m
      \<and> calculate_mean wide_dragged = wide_dragged\<lparr>mean_var := mean_label @ format_4f (Some m)\<rparr>"
    by blast
  then obtain m' where "np_mean (py_slice (replicate 30000 (0 :: real)) 10000 (29999 + 1)) = Some m'"
    and c: "calculate_mean wide_dragged = wide_dragged\<lparr>mean_var := mean_label @ format_4f (Some m')\<rparr>"
    by blast
  then have "m' = 0" using m by (simp only: option.inject)
  then have 1: "calculate_mean wide_dragged = wide_dragged\<lparr>mean_var := mean_label @ ascii ''0.0000''\<rparr>"
    using c by (simp only: fmt0)
  have n2: "\<not> (4 :: int) \<le> 0" by simp
  from calculate_mean_total [of preload_range "[1, 2, 3, 4, 5]" 0 4] p n2
  have 2: "py_slice [1, 2, 3, 4, 5 :: real] 0 (4 + 1) = map (\<lambda>i. [1, 2, 3, 4, 5] ! i) [nat 0..<nat 4 + 1]"
    by blast
  have 3: "map (\<lambda>i. [1, 2, 3, 4, 5 :: real] ! i) [nat 0..<nat 4 + 1] = [1, 2, 3, 4, 5]"
    by (simp add: upt_rec numeral_eq_Suc)
  from calculate_mean_total [of "init_analyzer []"] i
  have 4: "calculate_mean (init_analyzer []) = init_analyzer []" by blast
  have e: "end_idx wide_dragged = int (length (replicate 30000 (0 :: real)))"
    "end_idx preload_range = 20000"
    by (simp_all add: wide_dragged_fields preload_range_fields)
  from 2 3 have 5: "py_slice [1, 2, 3, 4, 5 :: real] 0 (4 + 1) = [1, 2, 3, 4, 5]" by (rule trans)
  from w p i 1 4 5 e show ?thesis by blast
qed

subsection \<open>C8: copying the result\<close>

text \<open>
  C8. While the placeholder is displayed, copying sets the hint "no valid data" (in red)
  and leaves the clipboard as it is, whatever the clipboard calls would do. While the
  label followed by a formatted mean is displayed, and the clipboard calls do not raise,
  copying leaves exactly the formatted number in the clipboard and sets the hint
  "copied".
\<close>

theorem copy_outcomes:
  "(mean_var s = placeholder_text
      \<longrightarrow> copy_result_to_clipboard s env
            = Returned (s\<lparr>copy_hint_var := hint_no_valid_data, copy_hint_fg := Red\<rparr>)
        \<and> clipboard (state_of (copy_result_to_clipboard s env)) = clipboard s)
   \<and> (mean_var s = mean_label @ format_4f (Some m)
      \<longrightarrow> copy_result_to_clipboard s ClipWorks
            = Returned (s\<lparr>copy_hint_var := hint_copied, copy_hint_fg := Green,
                          clipboard := format_4f (Some m)\<rparr>)
        \<and> clipboard (state_of (copy_result_to_clipboard s ClipWorks)) = format_4f (Some m))"
proof (intro conjI impI)
  assume p: "mean_var s = placeholder_text"
  then show c: "copy_result_to_clipboard s env
      = Returned (s\<lparr>copy_hint_var := hint_no_valid_data, copy_hint_fg := Red\<rparr>)"
    using placeholder_contains by (simp add: copy_result_to_clipboard_def Let_def)
  show "clipboard (state_of (copy_result_to_clipboard s env)) = clipboard s"
    unfolding c by simp
next
  assume v: "mean_var s = mean_label @ format_4f (Some m)"
  then show c: "copy_result_to_clipboard s ClipWorks
      = Returned (s\<lparr>copy_hint_var := hint_copied, copy_hint_fg := Green,
                    clipboard := format_4f (Some m)\<rparr>)"
    using valid_text_contains [of m] valid_text_split [of m] py_strip_format_4f [of m]
    by (simp add: copy_result_to_clipboard_def Let_def clipboard_clear_def clipboard_append_def)
  show "clipboard (state_of (copy_result_to_clipboard s ClipWorks)) = format_4f (Some m)"
    unfolding c by simp
qed

theorem copy_outcomes_witness:
  "mean_var (init_analyzer [1, 2]) = placeholder_text
   \<and> copy_hint_var (state_of (copy_result_to_clipboard (init_analyzer [1, 2]) ClearRaises))
       = hint_no_valid_data
   \<and> clipboard (state_of (copy_result_to_clipboard (init_analyzer [1, 2]) ClearRaises)) = [1, 2]
   \<and> mean_var five_loaded = mean_label @ format_4f (Some 3)
   \<and> clipboard (state_of (copy_result_to_clipboard five_loaded ClipWorks)) = ascii ''3.0000''
   \<and> copy_hint_var (state_of (copy_result_to_clipboard five_loaded ClipWorks)) = hint_copied"
proof -
  have p: "mean_var (init_analyzer [1, 2]) = placeholder_text"
    and cb: "clipboard (init_analyzer [1, 2]) = [1, 2]"
    by (simp_all add: init_analyzer_def)
  from copy_outcomes [where s = "init_analyzer [1, 2]" and env = ClearRaises] p
  have 1: "copy_result_to_clipboard (init_analyzer [1, 2]) ClearRaises
      = Returned ((init_analyzer [1, 2])\<lparr>copy_hint_var := hint_no_valid_data, copy_hint_fg := Red\<rparr>)"
    by blast
  from copy_outcomes [where s = five_loaded and m = 3] five_loaded_mean_var
  have 2: "copy_result_to_clipboard five_loaded ClipWorks
      = Returned (five_loaded\<lparr>copy_hint_var := hint_copied, copy_hint_fg := Green,
                    clipboard := format_4f (Some 3)\<rparr>)"
    by blast
  show ?thesis unfolding 1 2 using p cb five_loaded_mean_var by (simp add: fmt3)
qed

end
